theory Spec2Isabelle
  imports Main
begin

section \<open>Data model\<close>

text \<open>
  The records follow the TypeScript interfaces of \<^verbatim>\<open>App.tsx\<close>, \<^verbatim>\<open>data/products.ts\<close>,
  \<^verbatim>\<open>services/cartService.ts\<close> and \<^verbatim>\<open>services/driverService.ts\<close>. A field whose name
  is shared by two interfaces (or clashes with a HOL constant such as \<open>id\<close>) carries a
  suffix. Prices, quantities and amounts are \<open>int\<close>: the schema of
  \<^verbatim>\<open>db/migrations/001_init.sql\<close> declares \<^verbatim>\<open>price integer\<close>, \<^verbatim>\<open>quantity integer\<close> and
  \<^verbatim>\<open>total_amount integer\<close>, and the admin form stores \<^verbatim>\<open>Math.round(Number(price))\<close>.
  An optional field (\<^verbatim>\<open>image?: string\<close>) or a nullable value is an \<open>option\<close>.
\<close>

record Product =
  id_p :: string
  name_p :: string
  price :: int
  image :: "string option"
  categories :: "string list"
  badge :: "string option"

record CartItem =
  product :: Product
  quantity :: int

record UserData =
  fullName :: string
  email :: string
  phone_u :: string
  address_u :: "string option"

datatype Status = Pending | Confirmed | Preparing | Ready | Delivered

datatype Payment = Cash | Card

record Order =
  id_o :: string
  name_o :: string
  orderId :: string
  items :: "CartItem list"
  totalAmount :: int
  phone :: string
  date :: string
  status :: Status
  payment :: Payment
  driver :: string
  deliveryAddress :: "string option"
  deliveryOption :: string

text \<open>
  \<^verbatim>\<open>deliveryInfo?: any\<close>: the argument may be absent, and so may each of the two fields the
  handler reads.
\<close>

record DeliveryInfo =
  address :: "string option"
  deliveryOption_d :: "string option"

text \<open>The error objects the handlers inspect (\<^verbatim>\<open>err.message\<close>, \<^verbatim>\<open>err.error_description\<close>,
  \<^verbatim>\<open>err.details\<close>).\<close>

record error =
  message :: "string option"
  error_description :: "string option"
  details :: "string option"

definition Error :: "string \<Rightarrow> error" where
  "Error msg = \<lparr>message = Some msg, error_description = None, details = None\<rparr>"

text \<open>Reading a property of \<^verbatim>\<open>null\<close> throws a \<^verbatim>\<open>TypeError\<close>; the text of its message is the
  engine's and is not modelled.\<close>

definition TypeError :: error where
  "TypeError = Error ''TypeError''"

record CartDatabaseItem =
  user_id :: string
  product_id :: string
  quantity_c :: int

record Driver =
  id_d :: string
  profileId :: string
  name_d :: string

subsection \<open>Rows sent to and returned by the store\<close>

record order_payload =
  user_id_r :: "string option"
  order_number :: string
  total_amount :: int
  phone_r :: string
  date_r :: string
  status_r :: Status
  payment_r :: Payment
  delivery_address :: "string option"
  delivery_option :: string

text \<open>The row returned by \<^verbatim>\<open>insert([orderPayload]).select().single()\<close>; it is untyped in the
  source, and the handler guards every column but \<^verbatim>\<open>id\<close> against \<^verbatim>\<open>null\<close>.\<close>

record inserted_order =
  ins_id :: string
  ins_order_number :: "string option"
  ins_date :: "string option"
  ins_status :: "Status option"
  ins_payment :: "Payment option"
  ins_delivery_address :: "string option"
  ins_delivery_option :: "string option"

record order_item_payload =
  order_id :: string
  product_id_i :: string
  quantity_i :: int
  price_i :: int

record profile =
  id_pr :: string
  full_name :: "string option"


subsection \<open>Effects\<close>

text \<open>
  Every \<^verbatim>\<open>await supabase...\<close> of the source is a request to the remote store. A function of
  the model receives the store's reply as an argument and returns the requests it issued,
  in order. The client resolves a call to a \<^verbatim>\<open>{ data, error }\<close> value, which is the reply; a
  handler runs to its end before the next one starts, so the state a closure captured is
  the state the handler started in. Toast notifications are logged in the component
  state (a toast that replaces the loading toast of the same id is logged after it).
\<close>

datatype request =
    AuthGetUser
  | ProfilesSelect string
  | OrdersInsert order_payload
  | OrderItemsInsert "order_item_payload list"
  | CartsSelect string
  | CartsUpsert string string int
  | CartsUpdate string string int
  | CartsDelete string string
  | CartsDeleteAll string
  | ProductsSelect
  | OrdersUpdateStatus string Status
  | AssignDriverToOrder string string
  | OrderItemsDelete string
  | OrdersDelete string
  | OrdersSelectId string
  | OrdersSelectAll
  | ProductsSelectIn "string list"

datatype toast = ToastLoading string | ToastSuccess string | ToastError string

section \<open>JavaScript operators on nullable strings\<close>

text \<open>\<^verbatim>\<open>x || d\<close> on a nullable string: \<^verbatim>\<open>null\<close>, \<^verbatim>\<open>undefined\<close> and the empty string are falsy.\<close>

definition or_str :: "string option \<Rightarrow> string \<Rightarrow> string" where
  "or_str x d = (case x of None \<Rightarrow> d | Some v \<Rightarrow> if v = [] then d else v)"

text \<open>\<^verbatim>\<open>x || null\<close>.\<close>

definition or_null :: "string option \<Rightarrow> string option" where
  "or_null x = (case x of None \<Rightarrow> None | Some v \<Rightarrow> if v = [] then None else Some v)"

text \<open>\<^verbatim>\<open>x ?? d\<close>: only \<^verbatim>\<open>null\<close> and \<^verbatim>\<open>undefined\<close> give the default.\<close>

definition nullish :: "'a option \<Rightarrow> 'a \<Rightarrow> 'a" where
  "nullish x d = (case x of None \<Rightarrow> d | Some v \<Rightarrow> v)"

text \<open>An object reference is truthy unless it is \<^verbatim>\<open>null\<close> or \<^verbatim>\<open>undefined\<close>.\<close>

definition defined :: "'a option \<Rightarrow> bool" where
  "defined x = (case x of None \<Rightarrow> False | Some v \<Rightarrow> True)"

text \<open>\<^verbatim>\<open>if (userId)\<close> on a nullable string.\<close>

definition truthy :: "string option \<Rightarrow> bool" where
  "truthy x = (case x of None \<Rightarrow> False | Some v \<Rightarrow> v \<noteq> [])"

text \<open>\<^verbatim>\<open>String(n)\<close> for a natural number, and \<^verbatim>\<open>padStart(w, '0')\<close>.\<close>

definition digit :: "nat \<Rightarrow> char" where
  "digit d = char_of (48 + d)"

fun String_nat :: "nat \<Rightarrow> string" where
  "String_nat n = (if n < 10 then [digit n] else String_nat (n div 10) @ [digit (n mod 10)])"

definition padStart :: "string \<Rightarrow> nat \<Rightarrow> char \<Rightarrow> string" where
  "padStart s w c = replicate (w - length s) c @ s"

text \<open>\<^verbatim>\<open>Math.round\<close> on an integer amount.\<close>

definition Math_round :: "int \<Rightarrow> int" where
  "Math_round x = x"

section \<open>Cart service (\<^verbatim>\<open>services/cartService.ts\<close>)\<close>

text \<open>
  The functions \<^verbatim>\<open>App.tsx\<close> imports from \<^verbatim>\<open>./services/cartService\<close>; their source follows
  the authentication service in \<^verbatim>\<open>src/services/auth.ts\<close>.

  An \<^verbatim>\<open>async\<close> function returns \<open>Inr v\<close> when its promise resolves to \<open>v\<close> and \<open>Inl e\<close>
  when it rejects with \<open>e\<close>, together with the requests it issued. The body of a
  \<^verbatim>\<open>try\<close> block is a definition of its own; the function is the body followed by the
  \<^verbatim>\<open>catch\<close> handler.
\<close>

definition removeFromCart_try ::
    "error option \<Rightarrow> string \<Rightarrow> string \<Rightarrow> (error + unit) \<times> request list" where
  "removeFromCart_try reply userId productId =
     (case reply of
        Some e \<Rightarrow> (Inl e, [CartsDelete userId productId])
      | None \<Rightarrow> (Inr (), [CartsDelete userId productId]))"

definition removeFromCart ::
    "error option \<Rightarrow> string \<Rightarrow> string \<Rightarrow> (error + unit) \<times> request list" where
  "removeFromCart reply userId productId =
     (case removeFromCart_try reply userId productId of
        (Inl err, reqs) \<Rightarrow> (Inr (), reqs)
      | (Inr u, reqs) \<Rightarrow> (Inr u, reqs))"

text \<open>
  \<^verbatim>\<open>updateCartQuantity\<close> awaits \<^verbatim>\<open>removeFromCart\<close> inside its own \<^verbatim>\<open>try\<close>: a rejection of
  that call would be caught by the \<^verbatim>\<open>catch\<close> below. \<open>del_reply\<close> is the store's reply to
  the delete, \<open>upd_reply\<close> its reply \<^verbatim>\<open>{ data, error }\<close> to the update.
\<close>

definition updateCartQuantity_try ::
    "error option \<Rightarrow> CartDatabaseItem option \<times> error option \<Rightarrow> string \<Rightarrow> string \<Rightarrow> int
      \<Rightarrow> (error + CartDatabaseItem option) \<times> request list" where
  "updateCartQuantity_try del_reply upd_reply userId productId qty =
     (if qty < 1 then
        (case removeFromCart del_reply userId productId of
           (Inl e, reqs) \<Rightarrow> (Inl e, reqs)
         | (Inr u, reqs) \<Rightarrow> (Inr None, reqs))
      else
        (case upd_reply of
           (data, Some e) \<Rightarrow> (Inl e, [CartsUpdate userId productId qty])
         | (data, None) \<Rightarrow> (Inr data, [CartsUpdate userId productId qty])))"

definition updateCartQuantity ::
    "error option \<Rightarrow> CartDatabaseItem option \<times> error option \<Rightarrow> string \<Rightarrow> string \<Rightarrow> int
      \<Rightarrow> (error + CartDatabaseItem option) \<times> request list" where
  "updateCartQuantity del_reply upd_reply userId productId qty =
     (case updateCartQuantity_try del_reply upd_reply userId productId qty of
        (Inl err, reqs) \<Rightarrow> (Inr None, reqs)
      | (Inr r, reqs) \<Rightarrow> (Inr r, reqs))"




definition clearUserCart_try :: "error option \<Rightarrow> string \<Rightarrow> (error + unit) \<times> request list" where
  "clearUserCart_try reply uid =
     (case reply of
        Some e \<Rightarrow> (Inl e, [CartsDeleteAll uid])
      | None \<Rightarrow> (Inr (), [CartsDeleteAll uid]))"

definition clearUserCart :: "error option \<Rightarrow> string \<Rightarrow> (error + unit) \<times> request list" where
  "clearUserCart reply uid =
     (case clearUserCart_try reply uid of
        (Inl err, reqs) \<Rightarrow> (Inr (), reqs)
      | (Inr u, reqs) \<Rightarrow> (Inr u, reqs))"

text \<open>
  What a request that the store accepts does to the \<^verbatim>\<open>carts\<close> table: the query the source
  builds (\<^verbatim>\<open>.delete().eq('user_id', u).eq('product_id', p)\<close>,
  \<^verbatim>\<open>.update({ quantity }).eq(...).eq(...)\<close>, \<^verbatim>\<open>.upsert(...)\<close> on the key
  \<open>(user_id, product_id)\<close>, \<^verbatim>\<open>.delete().eq('user_id', u)\<close>) read as an operation on the
  rows. Requests on other tables leave it alone.
\<close>

definition is_line :: "string \<Rightarrow> string \<Rightarrow> CartDatabaseItem \<Rightarrow> bool" where
  "is_line u p r = (user_id r = u \<and> product_id r = p)"

fun carts_exec :: "request \<Rightarrow> CartDatabaseItem list \<Rightarrow> CartDatabaseItem list" where
  "carts_exec (CartsDelete u p) tbl = filter (\<lambda>r. \<not> is_line u p r) tbl"
| "carts_exec (CartsDeleteAll u) tbl = filter (\<lambda>r. user_id r \<noteq> u) tbl"
| "carts_exec (CartsUpdate u p q) tbl =
     map (\<lambda>r. if is_line u p r then r\<lparr>quantity_c := q\<rparr> else r) tbl"
| "carts_exec (CartsUpsert u p q) tbl =
     (if list_ex (is_line u p) tbl
      then map (\<lambda>r. if is_line u p r then r\<lparr>quantity_c := q\<rparr> else r) tbl
      else tbl @ [\<lparr>user_id = u, product_id = p, quantity_c = q\<rparr>])"
| "carts_exec _ tbl = tbl"

section \<open>The application component (\<^verbatim>\<open>App.tsx\<close>)\<close>

text \<open>
  The component state that the cart and checkout handlers read or write. The state of
  page rendering (selected category, selected product, bouquet colours, flower types) is
  left out: no handler below touches it.
\<close>

record App =
  currentPage :: string
  isLoggedIn :: bool
  isAdmin :: bool
  userId :: "string option"
  cartItems :: "CartItem list"
  showLoginRequired :: bool
  orders :: "Order list"
  userData :: UserData
  toasts :: "toast list"

subsection \<open>Cart handlers\<close>


definition handleUpdateQuantity ::
    "error option \<Rightarrow> CartDatabaseItem option \<times> error option
      \<Rightarrow> App \<Rightarrow> string \<Rightarrow> int \<Rightarrow> App \<times> request list" where
  "handleUpdateQuantity del_reply upd_reply s productId newQuantity =
     (if newQuantity < 1 then (s, [])
      else
        (let s1 = s\<lparr>cartItems :=
               map (\<lambda>item. if id_p (product item) = productId
                             then item\<lparr>quantity := newQuantity\<rparr> else item)
                   (cartItems s)\<rparr>
         in if truthy (userId s)
            then (s1, snd (updateCartQuantity del_reply upd_reply (the (userId s)) productId
                             newQuantity))
            else (s1, [])))"




subsection \<open>Login: the cart is reloaded from the store\<close>





subsection \<open>Checkout\<close>

text \<open>
  What the environment answers during one run of \<^verbatim>\<open>handleCheckout\<close>:
  \<open>getUser\<close> is the id of the user of \<^verbatim>\<open>supabase.auth.getUser()\<close> (\<open>None\<close> without a
  session), \<open>profile_reply\<close>, \<open>order_reply\<close> the \<^verbatim>\<open>{ data, error }\<close> pairs of the profile
  lookup and of the order insert, \<open>items_reply\<close> the \<^verbatim>\<open>error\<close> of the order-items insert,
  \<open>carts_delete_reply\<close> the store's reply to the deletion of one product's cart line,
  \<open>today\<close> the value of \<^verbatim>\<open>new Date().toISOString().split('T')[0]\<close> and \<open>now\<close> the value
  of \<^verbatim>\<open>Date.now()\<close>.
\<close>

record checkout_env =
  getUser :: "string option"
  profile_reply :: "profile option \<times> error option"
  order_reply :: "inserted_order option \<times> error option"
  items_reply :: "error option"
  carts_delete_reply :: "string \<Rightarrow> error option"
  today :: string
  now :: nat

text \<open>\<^verbatim>\<open>deliveryInfo?.deliveryOption\<close> and \<^verbatim>\<open>deliveryInfo?.address\<close>.\<close>

definition opt_deliveryOption :: "DeliveryInfo option \<Rightarrow> string option" where
  "opt_deliveryOption deliveryInfo =
     (case deliveryInfo of None \<Rightarrow> None | Some d \<Rightarrow> deliveryOption_d d)"

definition opt_address :: "DeliveryInfo option \<Rightarrow> string option" where
  "opt_address deliveryInfo = (case deliveryInfo of None \<Rightarrow> None | Some d \<Rightarrow> address d)"

text \<open>\<^verbatim>\<open>cartItems.filter((item) => selectedProductIds.includes(item.product.id))\<close>.\<close>

definition selectedItems :: "CartItem list \<Rightarrow> string list \<Rightarrow> CartItem list" where
  "selectedItems cart selectedProductIds =
     filter (\<lambda>item. id_p (product item) \<in> set selectedProductIds) cart"

text \<open>The \<^verbatim>\<open>reduce\<close> over the selected lines, plus the delivery fee.\<close>

definition checkout_total :: "CartItem list \<Rightarrow> string list \<Rightarrow> DeliveryInfo option \<Rightarrow> int" where
  "checkout_total cart selectedProductIds deliveryInfo =
     foldl (\<lambda>acc item. acc + price (product item) * quantity item) 0
           (selectedItems cart selectedProductIds)
     + (if opt_deliveryOption deliveryInfo = Some ''delivery'' then 59 else 0)"

text \<open>\<^verbatim>\<open>`ORD-${String((orders?.length ?? 0) + 1).padStart(3, '0')}`\<close>.\<close>

definition nextOrderNumber :: "Order list \<Rightarrow> string" where
  "nextOrderNumber os = ''ORD-'' @ padStart (String_nat (length os + 1)) 3 (CHR ''0'')"

definition orderPayload ::
    "checkout_env \<Rightarrow> App \<Rightarrow> string \<Rightarrow> string list \<Rightarrow> DeliveryInfo option \<Rightarrow> order_payload" where
  "orderPayload env s user selectedProductIds deliveryInfo =
     \<lparr>user_id_r = Some user,
      order_number = nextOrderNumber (orders s),
      total_amount = Math_round (checkout_total (cartItems s) selectedProductIds deliveryInfo),
      phone_r = phone_u (userData s),
      date_r = today env,
      status_r = Pending,
      payment_r = Cash,
      delivery_address = or_null (opt_address deliveryInfo),
      delivery_option = or_str (opt_deliveryOption deliveryInfo) ''delivery''\<rparr>"

definition itemsPayload :: "string \<Rightarrow> CartItem list \<Rightarrow> order_item_payload list" where
  "itemsPayload orderId' sel =
     map (\<lambda>si. \<lparr>order_id = orderId', product_id_i = id_p (product si),
                 quantity_i = quantity si, price_i = Math_round (price (product si))\<rparr>) sel"

definition newOrder ::
    "checkout_env \<Rightarrow> App \<Rightarrow> inserted_order \<Rightarrow> string list \<Rightarrow> DeliveryInfo option \<Rightarrow> Order" where
  "newOrder env s insertedOrder selectedProductIds deliveryInfo =
     \<lparr>id_o = ins_id insertedOrder,
      name_o = fullName (userData s),
      orderId = or_str (ins_order_number insertedOrder) (ins_id insertedOrder),
      items = selectedItems (cartItems s) selectedProductIds,
      totalAmount = checkout_total (cartItems s) selectedProductIds deliveryInfo,
      phone = phone_u (userData s),
      date = or_str (ins_date insertedOrder) (today env),
      status = nullish (ins_status insertedOrder) Pending,
      payment = nullish (ins_payment insertedOrder) Cash,
      driver = ''Unassigned'',
      deliveryAddress = Some (nullish (ins_delivery_address insertedOrder) []),
      deliveryOption = nullish (ins_delivery_option insertedOrder) ''delivery''\<rparr>"

definition fallbackOrder ::
    "checkout_env \<Rightarrow> App \<Rightarrow> string list \<Rightarrow> DeliveryInfo option \<Rightarrow> Order" where
  "fallbackOrder env s selectedProductIds deliveryInfo =
     \<lparr>id_o = String_nat (now env),
      name_o = fullName (userData s),
      orderId = nextOrderNumber (orders s),
      items = selectedItems (cartItems s) selectedProductIds,
      totalAmount = checkout_total (cartItems s) selectedProductIds deliveryInfo,
      phone = phone_u (userData s),
      date = today env,
      status = Pending,
      payment = Cash,
      driver = ''Unassigned'',
      deliveryAddress = Some (or_str (opt_address deliveryInfo) []),
      deliveryOption = or_str (opt_deliveryOption deliveryInfo) ''delivery''\<rparr>"

text \<open>\<^verbatim>\<open>for (const productId of selectedProductIds) await removeFromCart(userId, productId)\<close>:
  the requests of the calls, in order (\<^verbatim>\<open>removeFromCart\<close> never rejects).\<close>

definition syncCart :: "checkout_env \<Rightarrow> string option \<Rightarrow> string list \<Rightarrow> request list" where
  "syncCart env uid selectedProductIds =
     (if truthy uid
      then concat (map (\<lambda>productId.
             snd (removeFromCart (carts_delete_reply env productId) (the uid) productId))
             selectedProductIds)
      else [])"

text \<open>
  The \<^verbatim>\<open>try\<close> block. A \<^verbatim>\<open>throw\<close> ends it with \<open>Inl\<close>; the state changes made before the
  \<^verbatim>\<open>throw\<close> stay. \<^verbatim>\<open>insertedOrder.id\<close> on a \<^verbatim>\<open>null\<close> row raises.
\<close>

definition handleCheckout_try ::
    "checkout_env \<Rightarrow> App \<Rightarrow> string list \<Rightarrow> DeliveryInfo option
      \<Rightarrow> (error + unit) \<times> App \<times> request list" where
  "handleCheckout_try env s selectedProductIds deliveryInfo =
     (case getUser env of
        None \<Rightarrow>
          (Inl (Error ''No authenticated session''),
           s\<lparr>showLoginRequired := True,
             toasts := toasts s @ [ToastError ''Please sign in to place your order.'']\<rparr>,
           [AuthGetUser])
      | Some user \<Rightarrow>
          (case profile_reply env of
             (prof, profileError) \<Rightarrow>
               if defined profileError \<or> \<not> defined prof then
                 (Inl (Error ''No user profile found''),
                  s\<lparr>toasts := toasts s @
                     [ToastError ''Account setup incomplete. Please try signing out and back in.'']\<rparr>,
                  [AuthGetUser, ProfilesSelect user])
               else
                 (let payload = orderPayload env s user selectedProductIds deliveryInfo;
                      reqs = [AuthGetUser, ProfilesSelect user, OrdersInsert payload]
                  in case order_reply env of
                       (insertedOrder, Some orderErr) \<Rightarrow> (Inl orderErr, s, reqs)
                     | (None, None) \<Rightarrow> (Inl TypeError, s, reqs)
                     | (Some row, None) \<Rightarrow>
                         (let itemsP = itemsPayload (ins_id row)
                                         (selectedItems (cartItems s) selectedProductIds);
                              reqs1 = (if itemsP \<noteq> [] then reqs @ [OrderItemsInsert itemsP]
                                       else reqs)
                          in if itemsP \<noteq> [] \<and> defined (items_reply env)
                             then (Inl (the (items_reply env)), s, reqs1)
                             else
                               (Inr (),
                                s\<lparr>orders := orders s @
                                     [newOrder env s row selectedProductIds deliveryInfo],
                                  cartItems := filter (\<lambda>item. id_p (product item) \<notin>
                                     set selectedProductIds) (cartItems s),
                                  currentPage := ''home'',
                                  toasts := toasts s @ [ToastSuccess
                                    ''Order placed successfully! Thank you for your purchase.'']\<rparr>,
                                reqs1 @ syncCart env (userId s) selectedProductIds)))))"

text \<open>\<^verbatim>\<open>err?.message || (err?.error && err.error.message) || 'Failed to persist order to server'\<close>;
  the errors of this model carry no nested \<^verbatim>\<open>error\<close> object.\<close>

definition checkout_message :: "error \<Rightarrow> string" where
  "checkout_message err = or_str (message err) ''Failed to persist order to server''"

text \<open>
  The handler: the \<^verbatim>\<open>try\<close> block, and on a \<^verbatim>\<open>throw\<close> the \<^verbatim>\<open>catch\<close> block. \<^verbatim>\<open>orders\<close> and
  \<^verbatim>\<open>cartItems\<close> inside the fallback order are the values the closure captured (\<open>s\<close>); the
  state setters act on the current state (\<open>s'\<close>).
\<close>

definition handleCheckout ::
    "checkout_env \<Rightarrow> App \<Rightarrow> string list \<Rightarrow> DeliveryInfo option \<Rightarrow> App \<times> request list" where
  "handleCheckout env s selectedProductIds deliveryInfo =
     (case handleCheckout_try env s selectedProductIds deliveryInfo of
        (Inr u, s', reqs) \<Rightarrow> (s', reqs)
      | (Inl err, s', reqs) \<Rightarrow>
          (s'\<lparr>orders := orders s' @ [fallbackOrder env s selectedProductIds deliveryInfo],
              cartItems := filter (\<lambda>item. id_p (product item) \<notin> set selectedProductIds)
                             (cartItems s'),
              currentPage := ''home'',
              toasts := toasts s' @
                [ToastError (checkout_message err),
                 ToastError ''Order saved locally but failed to persist to the server. Please try again or contact support.'']\<rparr>,
           reqs))"

subsection \<open>The cart page (\<^verbatim>\<open>components/CartPage.tsx\<close>)\<close>

text \<open>The total the cart page shows for the set of ticked product ids and the chosen
  delivery option, and the call it makes when the order is placed: the delivery option is
  always supplied, and of the delivery form only the address is read by the handler.\<close>

definition CartPage_total :: "CartItem list \<Rightarrow> string set \<Rightarrow> string \<Rightarrow> int" where
  "CartPage_total cart sel selectedDeliveryOption =
     (let selectedCartItems = filter (\<lambda>item. id_p (product item) \<in> sel) cart;
          subtotal = foldl (\<lambda>acc item. acc + price (product item) * quantity item) 0
                       selectedCartItems;
          deliveryFee = (if selectedDeliveryOption = ''delivery'' then 59 else 0)
      in subtotal + deliveryFee)"


section \<open>The admin order screen (\<^verbatim>\<open>components/admin/AdminOrders.tsx\<close>)\<close>

text \<open>
  \<open>orders_a\<close> is the \<^verbatim>\<open>orders\<close> property, which is the order list of the application
  component; \<^verbatim>\<open>onUpdateOrders\<close> is its setter, so a call of it is an update of \<open>orders_a\<close>.
\<close>

record AdminOrders =
  orders_a :: "Order list"
  drivers :: "Driver list"
  deleteOrderId :: "string option"
  isDeleteDialogOpen :: bool
  toasts_a :: "toast list"
  loading :: bool
  error_a :: "string option"

text \<open>\<^verbatim>\<open>(err && (err.message || err.error_description || err.details)) || dflt\<close>.\<close>

definition admin_message :: "error \<Rightarrow> string \<Rightarrow> string" where
  "admin_message err dflt =
     or_str (case or_null (message err) of
               Some m \<Rightarrow> Some m
             | None \<Rightarrow> (case or_null (error_description err) of
                          Some m \<Rightarrow> Some m
                        | None \<Rightarrow> or_null (details err))) dflt"

text \<open>The message with the details appended after a dash (the bytes of U+2014).\<close>

definition with_details :: "error \<Rightarrow> string \<Rightarrow> string" where
  "with_details err dflt =
     admin_message err dflt @
       (case or_null (details err) of
          None \<Rightarrow> []
        | Some d \<Rightarrow> '' '' @ [CHR 0xE2, CHR 0x80, CHR 0x94] @ '' '' @ d)"

definition handleUpdateStatus_try ::
    "error option \<Rightarrow> AdminOrders \<Rightarrow> string \<Rightarrow> Status
      \<Rightarrow> (error + unit) \<times> AdminOrders \<times> request list" where
  "handleUpdateStatus_try reply a orderId' newStatus =
     (let a1 = a\<lparr>toasts_a := toasts_a a @ [ToastLoading ''Updating order status...'']\<rparr>;
          reqs = [OrdersUpdateStatus orderId' newStatus]
      in case reply of
           Some e \<Rightarrow> (Inl e, a1, reqs)
         | None \<Rightarrow>
             (Inr (),
              a1\<lparr>orders_a := map (\<lambda>order. if id_o order = orderId'
                                            then order\<lparr>status := newStatus\<rparr> else order)
                                  (orders_a a),
                 toasts_a := toasts_a a1 @ [ToastSuccess ''Order status updated successfully'']\<rparr>,
              reqs))"

definition handleUpdateStatus ::
    "error option \<Rightarrow> AdminOrders \<Rightarrow> string \<Rightarrow> Status \<Rightarrow> AdminOrders \<times> request list" where
  "handleUpdateStatus reply a orderId' newStatus =
     (case handleUpdateStatus_try reply a orderId' newStatus of
        (Inr u, a', reqs) \<Rightarrow> (a', reqs)
      | (Inl err, a', reqs) \<Rightarrow>
          (a'\<lparr>toasts_a := toasts_a a' @ [ToastError (with_details err
                ''Failed to update order status. Please try again.'')]\<rparr>, reqs))"

definition handleAcceptOrder_try ::
    "error option \<Rightarrow> AdminOrders \<Rightarrow> string \<Rightarrow> (error + unit) \<times> AdminOrders \<times> request list" where
  "handleAcceptOrder_try reply a orderId' =
     (let a1 = a\<lparr>toasts_a := toasts_a a @ [ToastLoading ''Accepting order...'']\<rparr>;
          reqs = [OrdersUpdateStatus orderId' Confirmed]
      in case reply of
           Some e \<Rightarrow> (Inl e, a1, reqs)
         | None \<Rightarrow>
             (Inr (),
              a1\<lparr>orders_a := map (\<lambda>order. if id_o order = orderId'
                                            then order\<lparr>status := Confirmed\<rparr> else order)
                                  (orders_a a),
                 toasts_a := toasts_a a1 @
                   [ToastSuccess ''Order accepted! Now you can assign a driver.'']\<rparr>,
              reqs))"

definition handleAcceptOrder ::
    "error option \<Rightarrow> AdminOrders \<Rightarrow> string \<Rightarrow> AdminOrders \<times> request list" where
  "handleAcceptOrder reply a orderId' =
     (case handleAcceptOrder_try reply a orderId' of
        (Inr u, a', reqs) \<Rightarrow> (a', reqs)
      | (Inl err, a', reqs) \<Rightarrow>
          (a'\<lparr>toasts_a := toasts_a a' @ [ToastError (with_details err
                ''Failed to accept order. Please try again.'')]\<rparr>, reqs))"

text \<open>
  \<^verbatim>\<open>assignDriverToOrder\<close> belongs to \<^verbatim>\<open>services/driverService\<close>; the handler reads only the
  \<^verbatim>\<open>error\<close> of its result, which is the argument \<open>reply\<close>.
\<close>

definition handleAssignDriver_try ::
    "error option \<Rightarrow> AdminOrders \<Rightarrow> string \<Rightarrow> string
      \<Rightarrow> (error + unit) \<times> AdminOrders \<times> request list" where
  "handleAssignDriver_try reply a orderId' driverId =
     (if driverId = [] then (Inr (), a, [])
      else
        (let a1 = a\<lparr>toasts_a := toasts_a a @ [ToastLoading ''Assigning driver...'']\<rparr>
         in case find (\<lambda>d. id_d d = driverId) (drivers a) of
              None \<Rightarrow> (Inl (Error ''Driver not found''), a1, [])
            | Some selectedDriver \<Rightarrow>
                (let reqs = [AssignDriverToOrder orderId' (profileId selectedDriver)]
                 in case reply of
                      Some e \<Rightarrow> (Inl e, a1, reqs)
                    | None \<Rightarrow>
                        (Inr (),
                         a1\<lparr>orders_a := map (\<lambda>order. if id_o order = orderId'
                                 then order\<lparr>driver := name_d selectedDriver\<rparr> else order)
                               (orders_a a),
                            toasts_a := toasts_a a1 @
                              [ToastSuccess ''Driver assigned successfully'']\<rparr>,
                         reqs))))"

definition handleAssignDriver ::
    "error option \<Rightarrow> AdminOrders \<Rightarrow> string \<Rightarrow> string \<Rightarrow> AdminOrders \<times> request list" where
  "handleAssignDriver reply a orderId' driverId =
     (case handleAssignDriver_try reply a orderId' driverId of
        (Inr u, a', reqs) \<Rightarrow> (a', reqs)
      | (Inl err, a', reqs) \<Rightarrow>
          (a'\<lparr>toasts_a := toasts_a a' @ [ToastError (with_details err
                ''Failed to assign driver. Please try again.'')]\<rparr>, reqs))"

text \<open>
  The replies to the three calls of \<^verbatim>\<open>handleDeleteOrder\<close>: the \<^verbatim>\<open>error\<close> of the deletion of
  the order items, the \<^verbatim>\<open>error\<close> of the deletion of the order, and the \<^verbatim>\<open>{ data, error }\<close>
  of the lookup that follows (\<^verbatim>\<open>data\<close> is the \<^verbatim>\<open>id\<close> of the row found).
\<close>

record delete_env =
  itemsError :: "error option"
  orderError :: "error option"
  verify :: "string option \<times> error option"

definition still_exists :: error where
  "still_exists =
     Error ''Order deletion failed - RLS permission issue? Order still exists in database''"

definition handleDeleteOrder_try ::
    "delete_env \<Rightarrow> AdminOrders \<Rightarrow> string
      \<Rightarrow> (error + unit) \<times> AdminOrders \<times> request list" where
  "handleDeleteOrder_try env a ident =
     (let a1 = a\<lparr>toasts_a := toasts_a a @ [ToastLoading ''Deleting order...'']\<rparr>
      in case itemsError env of
           Some e \<Rightarrow> (Inl e, a1, [OrderItemsDelete ident])
         | None \<Rightarrow>
             (case orderError env of
                Some e \<Rightarrow> (Inl e, a1, [OrderItemsDelete ident, OrdersDelete ident])
              | None \<Rightarrow>
                  (let reqs = [OrderItemsDelete ident, OrdersDelete ident, OrdersSelectId ident]
                   in case verify env of
                        (verifyOrder, verifyError) \<Rightarrow>
                          if \<not> defined verifyError \<and> defined verifyOrder
                          then (Inl still_exists, a1, reqs)
                          else
                            (Inr (),
                             a1\<lparr>orders_a := filter (\<lambda>order. id_o order \<noteq> ident) (orders_a a),
                                toasts_a := toasts_a a1 @
                                  [ToastSuccess ''Order deleted successfully''],
                                isDeleteDialogOpen := False,
                                deleteOrderId := None\<rparr>,
                             reqs))))"

definition handleDeleteOrder :: "delete_env \<Rightarrow> AdminOrders \<Rightarrow> AdminOrders \<times> request list" where
  "handleDeleteOrder env a =
     (if \<not> truthy (deleteOrderId a) then (a, [])
      else
        (case handleDeleteOrder_try env a (the (deleteOrderId a)) of
           (Inr u, a', reqs) \<Rightarrow> (a', reqs)
         | (Inl err, a', reqs) \<Rightarrow>
             (a'\<lparr>toasts_a := toasts_a a' @
                   [ToastError (admin_message err ''Failed to delete order. Please try again.'')],
                 isDeleteDialogOpen := False,
                 deleteOrderId := None\<rparr>, reqs)))"

subsection \<open>Refreshing the order list from the store\<close>












section \<open>Runs of the program\<close>








section \<open>A store that keeps what it is sent, and example states\<close>

text \<open>
  The row \<^verbatim>\<open>insert([orderPayload]).select().single()\<close> returns when the store accepts the
  insert: the columns of the payload (table \<^verbatim>\<open>orders\<close> of \<^verbatim>\<open>001_init.sql\<close>) under the id
  the store generated.
\<close>

definition stored :: "string \<Rightarrow> order_payload \<Rightarrow> inserted_order" where
  "stored ident pl =
     \<lparr>ins_id = ident,
      ins_order_number = Some (order_number pl),
      ins_date = Some (date_r pl),
      ins_status = Some (status_r pl),
      ins_payment = Some (payment_r pl),
      ins_delivery_address = delivery_address pl,
      ins_delivery_option = Some (delivery_option pl)\<rparr>"


definition rose :: Product where
  "rose = \<lparr>id_p = ''A'', name_p = ''Rose bouquet'', price = 100, image = None,
            categories = [], badge = None\<rparr>"

definition tulip :: Product where
  "tulip = \<lparr>id_p = ''B'', name_p = ''Tulips'', price = 250, image = None,
             categories = [], badge = None\<rparr>"

definition cart0 :: "CartItem list" where
  "cart0 = [\<lparr>product = rose, quantity = 2\<rparr>, \<lparr>product = tulip, quantity = 1\<rparr>]"

definition ana :: UserData where
  "ana = \<lparr>fullName = ''Ana'', email = ''ana@example.com'', phone_u = ''09170000000'',
           address_u = None\<rparr>"

definition app0 :: App where
  "app0 = \<lparr>currentPage = ''cart'', isLoggedIn = True, isAdmin = False, userId = Some ''u1'',
            cartItems = cart0, showLoginRequired = False, orders = [], userData = ana,
            toasts = []\<rparr>"

text \<open>A signed-in user with a profile, and a store that rejects the order insert.\<close>

definition env0 :: checkout_env where
  "env0 = \<lparr>getUser = Some ''u1'',
            profile_reply = (Some \<lparr>id_pr = ''u1'', full_name = Some ''Ana''\<rparr>, None),
            order_reply = (None, Some (Error ''insert rejected'')),
            items_reply = None,
            carts_delete_reply = (\<lambda>productId. None),
            today = ''2025-01-01'',
            now = 1735689600000\<rparr>"

definition pickup :: "DeliveryInfo option" where
  "pickup = Some \<lparr>address = None, deliveryOption_d = Some ''pickup''\<rparr>"

definition order1 :: Order where
  "order1 = \<lparr>id_o = ''o1'', name_o = ''Ana'', orderId = ''ORD-001'',
              items = [\<lparr>product = rose, quantity = 2\<rparr>], totalAmount = 259,
              phone = ''09170000000'', date = ''2025-01-01'', status = Pending,
              payment = Cash, driver = ''Unassigned'', deliveryAddress = Some ''12 Rizal St'',
              deliveryOption = ''delivery''\<rparr>"

definition order2 :: Order where
  "order2 = order1\<lparr>id_o := ''o2'', orderId := ''ORD-002'', status := Confirmed\<rparr>"

definition ben :: Driver where
  "ben = \<lparr>id_d = ''d1'', profileId = ''p1'', name_d = ''Ben''\<rparr>"

definition admin0 :: AdminOrders where
  "admin0 = \<lparr>orders_a = [order1, order2], drivers = [ben], deleteOrderId = Some ''o1'',
              isDeleteDialogOpen = True, toasts_a = [], loading = False, error_a = None\<rparr>"

definition denied :: error where
  "denied = Error ''permission denied''"

definition no_session :: checkout_env where
  "no_session = env0\<lparr>getUser := None\<rparr>"


definition carts0 :: "CartDatabaseItem list" where
  "carts0 = [\<lparr>user_id = ''u1'', product_id = ''A'', quantity_c = 2\<rparr>,
             \<lparr>user_id = ''u1'', product_id = ''B'', quantity_c = 1\<rparr>]"

text \<open>Two replies of the store to a deletion: the order delete is rejected; both deletes
  report no error, and the lookup still finds the row.\<close>

definition rejected :: delete_env where
  "rejected = \<lparr>itemsError = None, orderError = Some denied, verify = (None, None)\<rparr>"

definition row_kept :: delete_env where
  "row_kept = \<lparr>itemsError = None, orderError = None, verify = (Some ''o1'', None)\<rparr>"





declare String_nat.simps [simp del]

section \<open>Cart: quantities below one\<close>

text \<open>
  Claim C9. For every cart state, product id and new quantity below 1,
  \<^verbatim>\<open>handleUpdateQuantity\<close> is a no-op: the component state after the call is the state
  before it, and no request is sent to the store.
\<close>

theorem updateQuantity_below_one_is_noop:
  "newQuantity < 1 \<Longrightarrow>
     handleUpdateQuantity del_reply upd_reply s productId newQuantity = (s, [])"
  by (simp add: handleUpdateQuantity_def)

theorem updateQuantity_below_one_is_noop_witness:
  "(0::int) < 1 \<and> handleUpdateQuantity None (None, None) app0 ''A'' 0 = (app0, [])"
proof -
  have h: "(0::int) < 1" by simp
  show ?thesis using h updateQuantity_below_one_is_noop [OF h, of None "(None, None)" app0 "''A''"]
    by simp
qed

lemma removeFromCart_result:
  "removeFromCart reply u p = (Inr (), [CartsDelete u p])"
  by (simp add: removeFromCart_def removeFromCart_try_def split: option.split)

text \<open>
  Claim C10. The service function \<^verbatim>\<open>updateCartQuantity\<close>, called with a quantity below 1,
  does not update the line: whatever the store replies, its promise resolves to \<^verbatim>\<open>null\<close>
  (it never rejects), and the one request it issues is the deletion of the line
  \<open>(uid, pid)\<close> of the \<^verbatim>\<open>carts\<close> table, after which no such line is left and every
  other line is as before. The handler of the component, for the same quantity, leaves
  the local cart alone.
\<close>

theorem updateCartQuantity_below_one_deletes:
  assumes "qty < 1"
  shows "updateCartQuantity del_reply upd_reply uid pid qty = (Inr None, [CartsDelete uid pid])
       \<and> fold carts_exec (snd (updateCartQuantity del_reply upd_reply uid pid qty)) tbl
           = filter (\<lambda>r. \<not> (user_id r = uid \<and> product_id r = pid)) tbl
       \<and> fst (handleUpdateQuantity del_reply upd_reply s pid qty) = s"
  using assms
  by (simp add: updateCartQuantity_def updateCartQuantity_try_def removeFromCart_result
        is_line_def handleUpdateQuantity_def)

theorem updateCartQuantity_below_one_deletes_witness:
  "(0::int) < 1
   \<and> updateCartQuantity (Some denied) (None, None) ''u1'' ''A'' 0 = (Inr None, [CartsDelete ''u1'' ''A''])
   \<and> fold carts_exec (snd (updateCartQuantity (Some denied) (None, None) ''u1'' ''A'' 0)) carts0
       = [\<lparr>user_id = ''u1'', product_id = ''B'', quantity_c = 1\<rparr>]
   \<and> fst (handleUpdateQuantity (Some denied) (None, None) app0 ''A'' 0) = app0"
proof -
  have h: "(0::int) < 1" by simp
  note t = updateCartQuantity_below_one_deletes [OF h, of "Some denied" "(None, None)" "''u1''" "''A''" carts0 app0]
  have f: "filter (\<lambda>r. \<not> (user_id r = ''u1'' \<and> product_id r = ''A'')) carts0
             = [\<lparr>user_id = ''u1'', product_id = ''B'', quantity_c = 1\<rparr>]"
    by (simp add: carts0_def)
  from t f h show ?thesis by (simp add: is_line_def)
qed

section \<open>Checkout: the total\<close>

lemma foldl_add_sum:
  "foldl (\<lambda>acc item. acc + f item) (a::int) xs = a + sum_list (map f xs)"
  by (induction xs arbitrary: a) simp_all

lemma total_sum:
  "checkout_total cart ids di =
     (\<Sum>item\<leftarrow>selectedItems cart ids. price (product item) * quantity item)
     + (if opt_deliveryOption di = Some ''delivery'' then 59 else 0)"
  by (simp add: checkout_total_def foldl_add_sum)

text \<open>
  Claim C3. For every selection \<open>S\<close> of cart lines and every delivery option \<open>d\<close> supplied
  to checkout, the computed total is the sum of price times quantity over the selected
  lines, plus 59 if \<open>d\<close> is \<^verbatim>\<open>"delivery"\<close> and plus 0 otherwise; the total the cart page
  shows for the same selection and option is the same number.
\<close>

theorem checkout_total_formula:
  "checkout_total cart S (Some \<lparr>address = a, deliveryOption_d = Some d\<rparr>) =
     (\<Sum>line\<leftarrow>selectedItems cart S. price (product line) * quantity line)
     + (if d = ''delivery'' then 59 else 0)
   \<and> CartPage_total cart (set S) d = checkout_total cart S (Some \<lparr>address = a, deliveryOption_d = Some d\<rparr>)"
  by (simp add: total_sum opt_deliveryOption_def CartPage_total_def foldl_add_sum selectedItems_def)

section \<open>Checkout: what each path does\<close>


lemma checkout_success:
  assumes "getUser env = Some u" and "profile_reply env = (Some pr, None)"
    and "order_reply env = (Some row, None)" and "items_reply env = None"
  shows "fst (handleCheckout env s ids di) =
           s\<lparr>orders := orders s @ [newOrder env s row ids di],
             cartItems := filter (\<lambda>item. id_p (product item) \<notin> set ids) (cartItems s),
             currentPage := ''home'',
             toasts := toasts s @ [ToastSuccess
               ''Order placed successfully! Thank you for your purchase.'']\<rparr>"
  using assms
  by (simp add: handleCheckout_def handleCheckout_try_def Let_def defined_def)

lemma checkout_insert_failed:
  assumes "getUser env = Some u" and "profile_reply env = (Some pr, None)"
    and "order_reply env = (d, Some e)"
  shows "handleCheckout env s ids di =
           (s\<lparr>orders := orders s @ [fallbackOrder env s ids di],
              cartItems := filter (\<lambda>item. id_p (product item) \<notin> set ids) (cartItems s),
              currentPage := ''home'',
              toasts := toasts s @
                [ToastError (checkout_message e),
                 ToastError ''Order saved locally but failed to persist to the server. Please try again or contact support.'']\<rparr>,
            [AuthGetUser, ProfilesSelect u,
             OrdersInsert (orderPayload env s u ids di)])"
  using assms
  by (cases d) (simp_all add: handleCheckout_def handleCheckout_try_def Let_def defined_def)

lemma checkout_no_session:
  assumes "getUser env = None"
  shows "handleCheckout env s ids di =
           (s\<lparr>showLoginRequired := True,
              orders := orders s @ [fallbackOrder env s ids di],
              cartItems := filter (\<lambda>item. id_p (product item) \<notin> set ids) (cartItems s),
              currentPage := ''home'',
              toasts := toasts s @
                [ToastError ''Please sign in to place your order.'',
                 ToastError ''No authenticated session'',
                 ToastError ''Order saved locally but failed to persist to the server. Please try again or contact support.'']\<rparr>,
            [AuthGetUser])"
  using assms
  by (simp add: handleCheckout_def handleCheckout_try_def Let_def checkout_message_def Error_def or_str_def)





subsection \<open>Checkout without a session, and the delivery fee\<close>

lemma app0_fields: "cartItems app0 = cart0" "orders app0 = []" "toasts app0 = []"
  "userId app0 = Some ''u1''"
  by (simp_all add: app0_def)

lemma cart0_selected: "selectedItems cart0 [''A''] = [\<lparr>product = rose, quantity = 2\<rparr>]"
  "filter (\<lambda>item. id_p (product item) \<notin> set [''A'']) cart0 = [\<lparr>product = tulip, quantity = 1\<rparr>]"
  by (simp_all add: selectedItems_def cart0_def rose_def tulip_def)

text \<open>
  Claim C1 says that a checkout without an authenticated session signals that a sign-in
  is required and aborts with no partial writes. The handler does raise the sign-in
  prompt and the toast, but its \<^verbatim>\<open>throw\<close> is inside the \<^verbatim>\<open>try\<close> block whose \<^verbatim>\<open>catch\<close>
  builds the fallback order: with nobody signed in, a cart of two roses and one tulip
  and the rose selected, the order list (empty before) holds one order with the two
  roses, the rose line has left the cart, and the only request sent was the session
  lookup.
\<close>

theorem checkout_without_session_falls_back:
  "getUser no_session = None
   \<and> orders app0 = []
   \<and> map items (orders (fst (handleCheckout no_session app0 [''A''] pickup)))
       = [[\<lparr>product = rose, quantity = 2\<rparr>]]
   \<and> cartItems app0 = [\<lparr>product = rose, quantity = 2\<rparr>, \<lparr>product = tulip, quantity = 1\<rparr>]
   \<and> cartItems (fst (handleCheckout no_session app0 [''A''] pickup))
       = [\<lparr>product = tulip, quantity = 1\<rparr>]
   \<and> showLoginRequired (fst (handleCheckout no_session app0 [''A''] pickup))
   \<and> toasts (fst (handleCheckout no_session app0 [''A''] pickup))
       = [ToastError ''Please sign in to place your order.'',
          ToastError ''No authenticated session'',
          ToastError ''Order saved locally but failed to persist to the server. Please try again or contact support.'']
   \<and> snd (handleCheckout no_session app0 [''A''] pickup) = [AuthGetUser]"
proof -
  have n: "getUser no_session = None" by (simp add: no_session_def)
  show ?thesis
    unfolding checkout_no_session [OF n]
    by (simp add: n app0_fields cart0_selected fallbackOrder_def cart0_def rose_def tulip_def selectedItems_def)
qed







subsection \<open>The failed insert\<close>

text \<open>
  Claim C5. If the order insert fails, a fallback order is still appended to the local
  order list, with status \<open>Pending\<close>, driver \<^verbatim>\<open>"Unassigned"\<close> and a total amount equal to the
  computed total, which is also the total amount of the order of the non-failing path
  for the same selection and delivery option; the cart lines of the selected product ids
  are removed.
\<close>

theorem failed_insert_fallback:
  assumes "getUser env = Some u" and "profile_reply env = (Some pr, None)"
    and "order_reply env = (d, Some e)"
  shows "butlast (orders (fst (handleCheckout env s S di))) = orders s
       \<and> orders (fst (handleCheckout env s S di)) \<noteq> []
       \<and> status (last (orders (fst (handleCheckout env s S di)))) = Pending
       \<and> driver (last (orders (fst (handleCheckout env s S di)))) = ''Unassigned''
       \<and> totalAmount (last (orders (fst (handleCheckout env s S di))))
           = checkout_total (cartItems s) S di
       \<and> totalAmount (last (orders (fst (handleCheckout env s S di))))
           = totalAmount (last (orders (fst (handleCheckout
               (env\<lparr>order_reply := (Some row, None), items_reply := None\<rparr>) s S di))))
       \<and> cartItems (fst (handleCheckout env s S di))
           = filter (\<lambda>line. id_p (product line) \<notin> set S) (cartItems s)"
proof -
  have fail: "fst (handleCheckout env s S di) =
           s\<lparr>orders := orders s @ [fallbackOrder env s S di],
              cartItems := filter (\<lambda>item. id_p (product item) \<notin> set S) (cartItems s),
              currentPage := ''home'',
              toasts := toasts s @
                [ToastError (checkout_message e),
                 ToastError ''Order saved locally but failed to persist to the server. Please try again or contact support.'']\<rparr>"
    using checkout_insert_failed [OF assms, of s S di] by simp
  let ?env' = "env\<lparr>order_reply := (Some row, None), items_reply := None\<rparr>"
  have ok: "orders (fst (handleCheckout ?env' s S di)) = orders s @ [newOrder ?env' s row S di]"
    using checkout_success [of ?env' u pr row s S di] assms by simp
  have same: "totalAmount (newOrder ?env' s row S di) = totalAmount (fallbackOrder env s S di)"
    by (simp add: newOrder_def fallbackOrder_def)
  show ?thesis
    by (simp add: fail ok same) (simp add: fallbackOrder_def)
qed

theorem failed_insert_fallback_witness:
  "getUser env0 = Some ''u1''
   \<and> order_reply env0 = (None, Some (Error ''insert rejected''))
   \<and> butlast (orders (fst (handleCheckout env0 app0 [''A''] pickup))) = orders app0
   \<and> status (last (orders (fst (handleCheckout env0 app0 [''A''] pickup)))) = Pending
   \<and> driver (last (orders (fst (handleCheckout env0 app0 [''A''] pickup)))) = ''Unassigned''
   \<and> totalAmount (last (orders (fst (handleCheckout env0 app0 [''A''] pickup)))) = 200
   \<and> totalAmount (last (orders (fst (handleCheckout
         (env0\<lparr>order_reply := (Some (stored ''o1'' (orderPayload env0 app0 ''u1'' [''A''] pickup)), None),
               items_reply := None\<rparr>) app0 [''A''] pickup)))) = 200
   \<and> cartItems (fst (handleCheckout env0 app0 [''A''] pickup)) = [\<lparr>product = tulip, quantity = 1\<rparr>]"
proof -
  have u: "getUser env0 = Some ''u1''"
    and p: "profile_reply env0 = (Some \<lparr>id_pr = ''u1'', full_name = Some ''Ana''\<rparr>, None)"
    and r: "order_reply env0 = (None, Some (Error ''insert rejected''))"
    by (simp_all add: env0_def)
  note t = failed_insert_fallback [OF u p r, of app0 "[''A'']" pickup
      "stored ''o1'' (orderPayload env0 app0 ''u1'' [''A''] pickup)"]
  have tot: "checkout_total cart0 [''A''] pickup = 200"
    by (simp add: total_sum cart0_selected rose_def pickup_def opt_deliveryOption_def)
  from t u r show ?thesis
    by (simp add: app0_fields tot) (simp add: cart0_def rose_def tulip_def)
qed

section \<open>Admin order mutations\<close>

lemma handleUpdateStatus_orders:
  "orders_a (fst (handleUpdateStatus reply a oid st)) =
     (case reply of
        Some e \<Rightarrow> orders_a a
      | None \<Rightarrow> map (\<lambda>ord. if id_o ord = oid then ord\<lparr>status := st\<rparr> else ord) (orders_a a))"
  by (simp add: handleUpdateStatus_def handleUpdateStatus_try_def Let_def split: option.split)

lemma handleUpdateStatus_requests:
  "snd (handleUpdateStatus reply a oid st) = [OrdersUpdateStatus oid st]"
  by (simp add: handleUpdateStatus_def handleUpdateStatus_try_def Let_def split: option.split)

lemma handleAcceptOrder_orders:
  "orders_a (fst (handleAcceptOrder reply a oid)) =
     (case reply of
        Some e \<Rightarrow> orders_a a
      | None \<Rightarrow> map (\<lambda>ord. if id_o ord = oid then ord\<lparr>status := Confirmed\<rparr> else ord)
                  (orders_a a))"
  by (simp add: handleAcceptOrder_def handleAcceptOrder_try_def Let_def split: option.split)

lemma handleAcceptOrder_requests:
  "snd (handleAcceptOrder reply a oid) = [OrdersUpdateStatus oid Confirmed]"
  by (simp add: handleAcceptOrder_def handleAcceptOrder_try_def Let_def split: option.split)

lemma handleAssignDriver_orders:
  "orders_a (fst (handleAssignDriver reply a oid did)) =
     (if did = [] then orders_a a
      else case find (\<lambda>d. id_d d = did) (drivers a) of
             None \<Rightarrow> orders_a a
           | Some d \<Rightarrow>
               (case reply of
                  Some e \<Rightarrow> orders_a a
                | None \<Rightarrow> map (\<lambda>ord. if id_o ord = oid then ord\<lparr>driver := name_d d\<rparr> else ord)
                            (orders_a a)))"
  by (simp add: handleAssignDriver_def handleAssignDriver_try_def Let_def split: option.split)

lemma handleAssignDriver_requests:
  "snd (handleAssignDriver reply a oid did) =
     (if did = [] then []
      else case find (\<lambda>d. id_d d = did) (drivers a) of
             None \<Rightarrow> []
           | Some d \<Rightarrow> [AssignDriverToOrder oid (profileId d)])"
  by (simp add: handleAssignDriver_def handleAssignDriver_try_def Let_def split: option.split)

lemma handleAssignDriver_error:
  "orders_a (fst (handleAssignDriver (Some e) a oid did)) = orders_a a"
  by (simp add: handleAssignDriver_orders split: option.split)

lemma handleAssignDriver_changed:
  assumes "orders_a (fst (handleAssignDriver reply a oid did)) \<noteq> orders_a a"
  shows "reply = None \<and> (\<exists>d. find (\<lambda>d. id_d d = did) (drivers a) = Some d
           \<and> snd (handleAssignDriver reply a oid did) = [AssignDriverToOrder oid (profileId d)])"
proof (cases "did = []")
  case True
  with assms show ?thesis by (simp add: handleAssignDriver_orders)
next
  case False
  show ?thesis
  proof (cases "find (\<lambda>d. id_d d = did) (drivers a)")
    case None
    with assms False show ?thesis by (simp add: handleAssignDriver_orders)
  next
    case (Some d)
    with assms False have "reply = None"
      by (cases reply) (simp_all add: handleAssignDriver_orders)
    with Some False show ?thesis by (simp add: handleAssignDriver_requests)
  qed
qed

lemma handleDeleteOrder_orders:
  "orders_a (fst (handleDeleteOrder env a)) =
     (if truthy (deleteOrderId a) \<and> itemsError env = None \<and> orderError env = None
         \<and> \<not> (\<not> defined (snd (verify env)) \<and> defined (fst (verify env)))
      then filter (\<lambda>ord. id_o ord \<noteq> the (deleteOrderId a)) (orders_a a)
      else orders_a a)"
  by (simp add: handleDeleteOrder_def handleDeleteOrder_try_def Let_def
        split: option.split prod.split)

lemma handleDeleteOrder_requests:
  "snd (handleDeleteOrder env a) =
     (if \<not> truthy (deleteOrderId a) then []
      else if defined (itemsError env) then [OrderItemsDelete (the (deleteOrderId a))]
      else if defined (orderError env)
        then [OrderItemsDelete (the (deleteOrderId a)), OrdersDelete (the (deleteOrderId a))]
      else [OrderItemsDelete (the (deleteOrderId a)), OrdersDelete (the (deleteOrderId a)),
            OrdersSelectId (the (deleteOrderId a))])"
  by (simp add: handleDeleteOrder_def handleDeleteOrder_try_def Let_def defined_def
        split: option.split prod.split)

lemma handleDeleteOrder_error:
  assumes "defined (itemsError env) \<or> defined (orderError env)"
  shows "orders_a (fst (handleDeleteOrder env a)) = orders_a a"
  using assms by (auto simp add: handleDeleteOrder_orders defined_def)

lemma handleDeleteOrder_changed:
  assumes "orders_a (fst (handleDeleteOrder env a)) \<noteq> orders_a a"
  shows "itemsError env = None \<and> orderError env = None
       \<and> (\<exists>ident. deleteOrderId a = Some ident
             \<and> snd (handleDeleteOrder env a) =
                 [OrderItemsDelete ident, OrdersDelete ident, OrdersSelectId ident])"
proof -
  from assms have t: "truthy (deleteOrderId a)" and i: "itemsError env = None"
    and o: "orderError env = None"
    by (simp_all add: handleDeleteOrder_orders split: if_splits)
  from t obtain ident where d: "deleteOrderId a = Some ident"
    by (cases "deleteOrderId a") (simp_all add: truthy_def)
  from t i o d show ?thesis
    by (simp add: handleDeleteOrder_requests defined_def)
qed

text \<open>
  Claim C6. For every admin order mutation (status update, accept, driver assignment,
  delete): if the call to the store returns an error, the local order list is left as it
  was; and whenever the local order list has changed, the store was asked first and
  reported no error.
\<close>

theorem admin_mutations_local_after_remote:
  "(orders_a (fst (handleUpdateStatus (Some e) a oid st)) = orders_a a)
 \<and> (orders_a (fst (handleAcceptOrder (Some e) a oid)) = orders_a a)
 \<and> (orders_a (fst (handleAssignDriver (Some e) a oid did)) = orders_a a)
 \<and> (itemsError env \<noteq> None \<or> orderError env \<noteq> None
      \<longrightarrow> orders_a (fst (handleDeleteOrder env a)) = orders_a a)
 \<and> (orders_a (fst (handleUpdateStatus reply a oid st)) \<noteq> orders_a a
      \<longrightarrow> reply = None \<and> OrdersUpdateStatus oid st \<in> set (snd (handleUpdateStatus reply a oid st)))
 \<and> (orders_a (fst (handleAcceptOrder reply a oid)) \<noteq> orders_a a
      \<longrightarrow> reply = None
          \<and> OrdersUpdateStatus oid Confirmed \<in> set (snd (handleAcceptOrder reply a oid)))
 \<and> (orders_a (fst (handleAssignDriver reply a oid did)) \<noteq> orders_a a
      \<longrightarrow> reply = None
          \<and> (\<exists>d \<in> set (drivers a). id_d d = did
                \<and> AssignDriverToOrder oid (profileId d)
                     \<in> set (snd (handleAssignDriver reply a oid did))))
 \<and> (orders_a (fst (handleDeleteOrder env a)) \<noteq> orders_a a
      \<longrightarrow> itemsError env = None \<and> orderError env = None
          \<and> (\<exists>ident. deleteOrderId a = Some ident
                \<and> snd (handleDeleteOrder env a) =
                    [OrderItemsDelete ident, OrdersDelete ident, OrdersSelectId ident]))"
proof -
  have st: "orders_a (fst (handleUpdateStatus (Some e) a oid st)) = orders_a a"
    by (simp add: handleUpdateStatus_orders)
  have ac: "orders_a (fst (handleAcceptOrder (Some e) a oid)) = orders_a a"
    by (simp add: handleAcceptOrder_orders)
  have dr: "orders_a (fst (handleAssignDriver (Some e) a oid did)) = orders_a a"
    by (rule handleAssignDriver_error)
  have de: "itemsError env \<noteq> None \<or> orderError env \<noteq> None
      \<longrightarrow> orders_a (fst (handleDeleteOrder env a)) = orders_a a"
    using handleDeleteOrder_error [of env a] by (auto simp add: defined_def split: option.splits)
  have st': "orders_a (fst (handleUpdateStatus reply a oid st)) \<noteq> orders_a a
      \<longrightarrow> reply = None \<and> OrdersUpdateStatus oid st \<in> set (snd (handleUpdateStatus reply a oid st))"
    by (cases reply) (simp_all add: handleUpdateStatus_orders handleUpdateStatus_requests)
  have ac': "orders_a (fst (handleAcceptOrder reply a oid)) \<noteq> orders_a a
      \<longrightarrow> reply = None
          \<and> OrdersUpdateStatus oid Confirmed \<in> set (snd (handleAcceptOrder reply a oid))"
    by (cases reply) (simp_all add: handleAcceptOrder_orders handleAcceptOrder_requests)
  have dr': "orders_a (fst (handleAssignDriver reply a oid did)) \<noteq> orders_a a
      \<longrightarrow> reply = None
          \<and> (\<exists>d \<in> set (drivers a). id_d d = did
                \<and> AssignDriverToOrder oid (profileId d)
                     \<in> set (snd (handleAssignDriver reply a oid did)))"
  proof
    assume ch: "orders_a (fst (handleAssignDriver reply a oid did)) \<noteq> orders_a a"
    from handleAssignDriver_changed [OF ch] obtain d where
      r: "reply = None" and f: "find (\<lambda>d. id_d d = did) (drivers a) = Some d"
      and q: "snd (handleAssignDriver reply a oid did) = [AssignDriverToOrder oid (profileId d)]"
      by blast
    from f have "d \<in> set (drivers a)" and "id_d d = did"
      by (auto simp add: find_Some_iff)
    with r q show "reply = None
          \<and> (\<exists>d \<in> set (drivers a). id_d d = did
                \<and> AssignDriverToOrder oid (profileId d)
                     \<in> set (snd (handleAssignDriver reply a oid did)))"
      by auto
  qed
  have de': "orders_a (fst (handleDeleteOrder env a)) \<noteq> orders_a a
      \<longrightarrow> itemsError env = None \<and> orderError env = None
          \<and> (\<exists>ident. deleteOrderId a = Some ident
                \<and> snd (handleDeleteOrder env a) =
                    [OrderItemsDelete ident, OrdersDelete ident, OrdersSelectId ident])"
    using handleDeleteOrder_changed [of env a] by blast
  from st ac dr de st' ac' dr' de' show ?thesis by blast
qed

theorem admin_mutations_local_after_remote_witness:
  "orderError rejected = Some denied
   \<and> orders_a (fst (handleUpdateStatus (Some denied) admin0 ''o1'' Delivered)) = orders_a admin0
   \<and> orders_a (fst (handleAcceptOrder (Some denied) admin0 ''o1'')) = orders_a admin0
   \<and> orders_a (fst (handleAssignDriver (Some denied) admin0 ''o1'' ''d1'')) = orders_a admin0
   \<and> orders_a (fst (handleDeleteOrder rejected admin0)) = orders_a admin0"
proof -
  have r: "orderError rejected = Some denied" by (simp add: rejected_def)
  note t = admin_mutations_local_after_remote [where e = denied and a = admin0 and oid = "''o1''"
      and st = Delivered and did = "''d1''" and env = rejected and reply = None]
  from t r show ?thesis by simp
qed

lemma handleDeleteOrder_still_exists:
  assumes "deleteOrderId a = Some ident" and "ident \<noteq> []"
    and "itemsError env = None" and "orderError env = None" and "verify env = (Some found, None)"
  shows "handleDeleteOrder_try env a ident =
           (Inl still_exists, a\<lparr>toasts_a := toasts_a a @ [ToastLoading ''Deleting order...'']\<rparr>,
            [OrderItemsDelete ident, OrdersDelete ident, OrdersSelectId ident])"
    and "fst (handleDeleteOrder env a) =
           a\<lparr>toasts_a := toasts_a a @ [ToastLoading ''Deleting order...'',
                 ToastError ''Order deletion failed - RLS permission issue? Order still exists in database''],
             isDeleteDialogOpen := False, deleteOrderId := None\<rparr>"
proof -
  show tr: "handleDeleteOrder_try env a ident =
           (Inl still_exists, a\<lparr>toasts_a := toasts_a a @ [ToastLoading ''Deleting order...'']\<rparr>,
            [OrderItemsDelete ident, OrdersDelete ident, OrdersSelectId ident])"
    using assms by (simp add: handleDeleteOrder_try_def Let_def defined_def)
  have msg: "admin_message still_exists ''Failed to delete order. Please try again.''
      = ''Order deletion failed - RLS permission issue? Order still exists in database''"
    by (simp add: admin_message_def still_exists_def Error_def or_null_def or_str_def)
  show "fst (handleDeleteOrder env a) =
           a\<lparr>toasts_a := toasts_a a @ [ToastLoading ''Deleting order...'',
                 ToastError ''Order deletion failed - RLS permission issue? Order still exists in database''],
             isDeleteDialogOpen := False, deleteOrderId := None\<rparr>"
    using assms(1,2) by (simp add: handleDeleteOrder_def tr truthy_def msg)
qed

text \<open>
  Claim C7. Deleting an order asks the store to delete the items of the order first, then
  the order row (only when the first deletion reported no error), then looks the row up
  (only when the second reported none). If both deletions reported no error and the
  lookup still finds the row, the operation ends as an error (the permission message is
  shown, no success message) and the order stays in the local order list.
\<close>

theorem delete_order_sequence_and_check:
  assumes "deleteOrderId a = Some ident" and "ident \<noteq> []"
  shows "snd (handleDeleteOrder env a) =
           (if defined (itemsError env) then [OrderItemsDelete ident]
            else if defined (orderError env) then [OrderItemsDelete ident, OrdersDelete ident]
            else [OrderItemsDelete ident, OrdersDelete ident, OrdersSelectId ident])
       \<and> (itemsError env = None \<and> orderError env = None \<and> verify env = (Some found, None)
           \<longrightarrow> fst (handleDeleteOrder_try env a ident) = Inl still_exists
             \<and> orders_a (fst (handleDeleteOrder env a)) = orders_a a
             \<and> toasts_a (fst (handleDeleteOrder env a)) =
                 toasts_a a @ [ToastLoading ''Deleting order...'',
                   ToastError ''Order deletion failed - RLS permission issue? Order still exists in database''])"
proof -
  have reqs: "snd (handleDeleteOrder env a) =
           (if defined (itemsError env) then [OrderItemsDelete ident]
            else if defined (orderError env) then [OrderItemsDelete ident, OrdersDelete ident]
            else [OrderItemsDelete ident, OrdersDelete ident, OrdersSelectId ident])"
    using assms by (simp add: handleDeleteOrder_requests truthy_def)
  have chk: "fst (handleDeleteOrder_try env a ident) = Inl still_exists
             \<and> orders_a (fst (handleDeleteOrder env a)) = orders_a a
             \<and> toasts_a (fst (handleDeleteOrder env a)) =
                 toasts_a a @ [ToastLoading ''Deleting order...'',
                   ToastError ''Order deletion failed - RLS permission issue? Order still exists in database'']"
    if "itemsError env = None" and "orderError env = None" and "verify env = (Some found, None)"
    using handleDeleteOrder_still_exists [OF assms that] by simp
  from reqs chk show ?thesis by blast
qed

theorem delete_order_sequence_and_check_witness:
  "deleteOrderId admin0 = Some ''o1''
   \<and> verify row_kept = (Some ''o1'', None)
   \<and> snd (handleDeleteOrder row_kept admin0)
       = [OrderItemsDelete ''o1'', OrdersDelete ''o1'', OrdersSelectId ''o1'']
   \<and> fst (handleDeleteOrder_try row_kept admin0 ''o1'') = Inl still_exists
   \<and> orders_a (fst (handleDeleteOrder row_kept admin0)) = orders_a admin0
   \<and> toasts_a (fst (handleDeleteOrder row_kept admin0))
       = [ToastLoading ''Deleting order...'',
          ToastError ''Order deletion failed - RLS permission issue? Order still exists in database'']"
proof -
  have d: "deleteOrderId admin0 = Some ''o1''" by (simp add: admin0_def)
  have n: "''o1'' \<noteq> []" by simp
  have k: "itemsError row_kept = None" "orderError row_kept = None"
    "verify row_kept = (Some ''o1'', None)"
    by (simp_all add: row_kept_def)
  have t0: "toasts_a admin0 = []" by (simp add: admin0_def)
  note t = delete_order_sequence_and_check [OF d n, of row_kept "''o1''"]
  from t d k t0 show ?thesis by (simp add: defined_def)
qed

lemma confirm_again: "status ord = Confirmed \<Longrightarrow> ord\<lparr>status := Confirmed\<rparr> = ord"
  by (cases ord) simp

lemma confirm_one:
  "id_o (if id_o x = oid then x\<lparr>status := Confirmed\<rparr> else x) = oid \<Longrightarrow>
   status (if id_o x = oid then x\<lparr>status := Confirmed\<rparr> else x) = Confirmed"
  by (cases "id_o x = oid") simp_all

lemma confirm_map_fixed:
  "\<forall>ord \<in> set xs. id_o ord = oid \<longrightarrow> status ord = Confirmed \<Longrightarrow>
     map (\<lambda>ord. if id_o ord = oid then ord\<lparr>status := Confirmed\<rparr> else ord) xs = xs"
  by (induction xs) (simp_all add: confirm_again)

lemma confirm_map_twice:
  "map (\<lambda>ord. if id_o ord = oid then ord\<lparr>status := Confirmed\<rparr> else ord)
     (map (\<lambda>ord. if id_o ord = oid then ord\<lparr>status := Confirmed\<rparr> else ord) xs)
   = map (\<lambda>ord. if id_o ord = oid then ord\<lparr>status := Confirmed\<rparr> else ord) xs"
  by (induction xs) simp_all

lemma confirm_map_status:
  "\<forall>ord \<in> set (map (\<lambda>ord. if id_o ord = oid then ord\<lparr>status := Confirmed\<rparr> else ord) xs).
     id_o ord = oid \<longrightarrow> status ord = Confirmed"
proof (intro ballI impI)
  fix ord
  assume m: "ord \<in> set (map (\<lambda>ord. if id_o ord = oid then ord\<lparr>status := Confirmed\<rparr> else ord) xs)"
    and i: "id_o ord = oid"
  from m obtain x where x: "ord = (if id_o x = oid then x\<lparr>status := Confirmed\<rparr> else x)"
    by (auto simp only: set_map image_iff)
  from i show "status ord = Confirmed" unfolding x by (rule confirm_one)
qed

text \<open>
  Claim C8. Accepting an order whose status is already \<open>Confirmed\<close> leaves it \<open>Confirmed\<close>:
  the local order list is unchanged. Accept sets the status with no guard on the current
  one, so after an accept that the store took, every order with that id is \<open>Confirmed\<close>,
  and accepting twice gives the same local order list as accepting once, for every
  order id.
\<close>

theorem accept_is_idempotent:
  "((\<forall>ord \<in> set (orders_a a). id_o ord = oid \<longrightarrow> status ord = Confirmed)
      \<longrightarrow> orders_a (fst (handleAcceptOrder reply a oid)) = orders_a a)
 \<and> (\<forall>ord \<in> set (orders_a (fst (handleAcceptOrder None a oid))).
       id_o ord = oid \<longrightarrow> status ord = Confirmed)
 \<and> orders_a (fst (handleAcceptOrder reply' (fst (handleAcceptOrder None a oid)) oid))
      = orders_a (fst (handleAcceptOrder None a oid))
 \<and> orders_a (fst (handleAcceptOrder reply (fst (handleAcceptOrder reply a oid)) oid))
      = orders_a (fst (handleAcceptOrder reply a oid))"
proof (intro conjI)
  show "(\<forall>ord \<in> set (orders_a a). id_o ord = oid \<longrightarrow> status ord = Confirmed)
      \<longrightarrow> orders_a (fst (handleAcceptOrder reply a oid)) = orders_a a"
  proof (cases reply)
    case None
    show ?thesis
      unfolding None handleAcceptOrder_orders option.case
      using confirm_map_fixed [of "orders_a a" oid] by blast
  next
    case (Some e)
    show ?thesis unfolding Some handleAcceptOrder_orders option.case by simp
  qed
  have ok: "orders_a (fst (handleAcceptOrder None b oid)) =
      map (\<lambda>ord. if id_o ord = oid then ord\<lparr>status := Confirmed\<rparr> else ord) (orders_a b)" for b
    unfolding handleAcceptOrder_orders option.case ..
  have err: "orders_a (fst (handleAcceptOrder (Some e) b oid)) = orders_a b" for b e
    unfolding handleAcceptOrder_orders option.case ..
  show "\<forall>ord \<in> set (orders_a (fst (handleAcceptOrder None a oid))).
       id_o ord = oid \<longrightarrow> status ord = Confirmed"
    unfolding ok by (rule confirm_map_status)
  show "orders_a (fst (handleAcceptOrder reply' (fst (handleAcceptOrder None a oid)) oid))
      = orders_a (fst (handleAcceptOrder None a oid))"
  proof (cases reply')
    case None
    show ?thesis unfolding None ok by (rule confirm_map_twice)
  next
    case (Some e)
    show ?thesis unfolding Some err ..
  qed
  show "orders_a (fst (handleAcceptOrder reply (fst (handleAcceptOrder reply a oid)) oid))
      = orders_a (fst (handleAcceptOrder reply a oid))"
  proof (cases reply)
    case None
    show ?thesis unfolding None ok by (rule confirm_map_twice)
  next
    case (Some e)
    show ?thesis unfolding Some err ..
  qed
qed

theorem accept_is_idempotent_witness:
  "status order2 = Confirmed
   \<and> orders_a (fst (handleAcceptOrder None admin0 ''o2'')) = orders_a admin0
   \<and> orders_a (fst (handleAcceptOrder None (fst (handleAcceptOrder None admin0 ''o1'')) ''o1''))
       = orders_a (fst (handleAcceptOrder None admin0 ''o1''))
   \<and> map status (orders_a (fst (handleAcceptOrder None admin0 ''o1''))) = [Confirmed, Confirmed]"
proof -
  have s2: "status order2 = Confirmed" by (simp add: order2_def)
  have h: "\<forall>ord \<in> set (orders_a admin0). id_o ord = ''o2'' \<longrightarrow> status ord = Confirmed"
    by (simp add: admin0_def order1_def order2_def)
  note t2 = accept_is_idempotent [where a = admin0 and oid = "''o2''" and reply = None and reply' = None]
  note t1 = accept_is_idempotent [where a = admin0 and oid = "''o1''" and reply = None and reply' = None]
  from t2 h have a: "orders_a (fst (handleAcceptOrder None admin0 ''o2'')) = orders_a admin0"
    by blast
  from t1 have b: "orders_a (fst (handleAcceptOrder None (fst (handleAcceptOrder None admin0 ''o1'')) ''o1''))
       = orders_a (fst (handleAcceptOrder None admin0 ''o1''))"
    by blast
  have c: "map status (orders_a (fst (handleAcceptOrder None admin0 ''o1''))) = [Confirmed, Confirmed]"
    by (simp add: handleAcceptOrder_orders admin0_def order1_def order2_def)
  from s2 a b c show ?thesis by blast
qed

section \<open>The order after the checkout\<close>

subsection \<open>What later events do to the order list\<close>
















end
